theory Spec2Isabelle
  imports Complex_Main "HOL-Library.Multiset"
begin

section \<open>Entity model of \<^verbatim>\<open>clean_router.py\<close>\<close>

text \<open>
  The three dataclasses of the router. Coordinates and identifiers are Python integers
  (the dataclass fields are annotated \<^verbatim>\<open>int\<close>), hence unbounded \<^typ>\<open>int\<close>.
  The field names \<^verbatim>\<open>id\<close>, \<^verbatim>\<open>x\<close>, \<^verbatim>\<open>y\<close> carry a prefix, since both
  \<^verbatim>\<open>Driver\<close> and \<^verbatim>\<open>Package\<close> have them. The threshold \<^verbatim>\<open>max_distance\<close> and the
  reported distance are Python floats; they are modelled as exact reals, so rounding and
  overflow of floating-point arithmetic are outside this development.
\<close>

record Driver =
  d_id :: int
  d_x :: int
  d_y :: int

record Package =
  p_id :: int
  p_x :: int
  p_y :: int
  priority :: string

record MatchResult =
  driver_id :: int
  package_id :: int
  distance :: real

text \<open>The exceptions the modelled code can raise.\<close>

datatype error = ZeroDivisionError | StatisticsError

text \<open>Python's \<^verbatim>\<open>int(f)\<close> on a float: truncation toward zero.\<close>

definition py_int :: "real \<Rightarrow> int" where
  "py_int r = (if 0 \<le> r then \<lfloor>r\<rfloor> else \<lceil>r\<rceil>)"

section \<open>The grid index\<close>

text \<open>
  \<^verbatim>\<open>get_grid_key\<close>: \<^verbatim>\<open>(int(x // cell_size), int(y // cell_size))\<close>. On integers
  \<^verbatim>\<open>//\<close> is floor division, as \<open>div\<close> on \<^typ>\<open>int\<close> is, and it raises
  \<^verbatim>\<open>ZeroDivisionError\<close> for a zero divisor, where \<open>div\<close> would return 0.
\<close>

definition get_grid_key :: "int \<Rightarrow> int \<Rightarrow> int \<Rightarrow> error + (int \<times> int)" where
  "get_grid_key x y cell_size =
     (if cell_size = 0 then Inl ZeroDivisionError
      else Inr (x div cell_size, y div cell_size))"

type_synonym grid = "(int \<times> int) \<rightharpoonup> Package list"

text \<open>
  Reading a bucket of the built index. The query guards every read with
  \<^verbatim>\<open>if neighbor_key in grid\<close>, so an absent key contributes no package.
\<close>

definition bucket :: "grid \<Rightarrow> int \<times> int \<Rightarrow> Package list" where
  "bucket g key = (case g key of None \<Rightarrow> [] | Some b \<Rightarrow> b)"

text \<open>
  The population loop (step 1 of \<^verbatim>\<open>find_matches_optimized\<close>):
  \<^verbatim>\<open>grid[key].append(pkg)\<close> on a \<^verbatim>\<open>defaultdict(list)\<close> creates the empty bucket of a
  new key and appends at the end.
\<close>

fun populate_grid :: "Package list \<Rightarrow> int \<Rightarrow> grid \<Rightarrow> error + grid" where
  "populate_grid [] cell_size g = Inr g"
| "populate_grid (pkg # rest) cell_size g =
     (case get_grid_key (p_x pkg) (p_y pkg) cell_size of
        Inl e \<Rightarrow> Inl e
      | Inr key \<Rightarrow>
          populate_grid rest cell_size
            (g(key \<mapsto> (case g key of None \<Rightarrow> [] | Some b \<Rightarrow> b) @ [pkg])))"

section \<open>The proximity matcher\<close>

text \<open>The body of the innermost loop: bounding-box pre-check, then the squared distance.\<close>

fun scan_bucket :: "Driver \<Rightarrow> real \<Rightarrow> Package list \<Rightarrow> MatchResult list \<Rightarrow> MatchResult list" where
  "scan_bucket driver max_distance [] matches = matches"
| "scan_bucket driver max_distance (pkg # rest) matches =
     scan_bucket driver max_distance rest
       (if \<bar>of_int (d_x driver - p_x pkg)\<bar> \<le> max_distance
           \<and> \<bar>of_int (d_y driver - p_y pkg)\<bar> \<le> max_distance
        then
          (let dist_sq = (d_x driver - p_x pkg)\<^sup>2 + (d_y driver - p_y pkg)\<^sup>2
           in if of_int dist_sq < max_distance\<^sup>2
              then matches @ [\<lparr>driver_id = d_id driver, package_id = p_id pkg,
                               distance = sqrt (of_int dist_sq)\<rparr>]
              else matches)
        else matches)"

text \<open>\<^verbatim>\<open>range(-1, 2)\<close>.\<close>

definition range_m1_2 :: "int list" where
  "range_m1_2 = [-1, 0, 1]"

text \<open>The loop over \<^verbatim>\<open>j\<close> for a fixed \<^verbatim>\<open>i\<close>, and the loop over \<^verbatim>\<open>i\<close>.\<close>

fun scan_j :: "Driver \<Rightarrow> real \<Rightarrow> grid \<Rightarrow> int \<Rightarrow> int \<Rightarrow> int \<Rightarrow> int list
    \<Rightarrow> MatchResult list \<Rightarrow> MatchResult list" where
  "scan_j driver max_distance g dx_grid dy_grid i [] matches = matches"
| "scan_j driver max_distance g dx_grid dy_grid i (j # js) matches =
     scan_j driver max_distance g dx_grid dy_grid i js
       (let neighbor_key = (dx_grid + i, dy_grid + j)
        in case g neighbor_key of
             None \<Rightarrow> matches
           | Some b \<Rightarrow> scan_bucket driver max_distance b matches)"

fun scan_i :: "Driver \<Rightarrow> real \<Rightarrow> grid \<Rightarrow> int \<Rightarrow> int \<Rightarrow> int list
    \<Rightarrow> MatchResult list \<Rightarrow> MatchResult list" where
  "scan_i driver max_distance g dx_grid dy_grid [] matches = matches"
| "scan_i driver max_distance g dx_grid dy_grid (i # is) matches =
     scan_i driver max_distance g dx_grid dy_grid is
       (scan_j driver max_distance g dx_grid dy_grid i range_m1_2 matches)"

text \<open>The loop over the drivers (step 2).\<close>

fun query_drivers :: "Driver list \<Rightarrow> grid \<Rightarrow> int \<Rightarrow> real \<Rightarrow> MatchResult list
    \<Rightarrow> error + MatchResult list" where
  "query_drivers [] g cell_size max_distance matches = Inr matches"
| "query_drivers (driver # rest) g cell_size max_distance matches =
     (case get_grid_key (d_x driver) (d_y driver) cell_size of
        Inl e \<Rightarrow> Inl e
      | Inr (dx_grid, dy_grid) \<Rightarrow>
          query_drivers rest g cell_size max_distance
            (scan_i driver max_distance g dx_grid dy_grid range_m1_2 matches))"

definition find_matches_optimized :: "Driver list \<Rightarrow> Package list \<Rightarrow> real
    \<Rightarrow> error + MatchResult list" where
  "find_matches_optimized drivers packages max_distance =
     (let cell_size = py_int max_distance
      in case populate_grid packages cell_size Map.empty of
           Inl e \<Rightarrow> Inl e
         | Inr g \<Rightarrow> query_drivers drivers g cell_size max_distance [])"

section \<open>The brute-force reference\<close>

fun brute_inner :: "Driver \<Rightarrow> real \<Rightarrow> Package list \<Rightarrow> MatchResult list \<Rightarrow> MatchResult list" where
  "brute_inner driver max_distance [] matches = matches"
| "brute_inner driver max_distance (pkg # rest) matches =
     brute_inner driver max_distance rest
       (let dist = sqrt (of_int ((d_x driver - p_x pkg)\<^sup>2 + (d_y driver - p_y pkg)\<^sup>2))
        in if dist < max_distance
           then matches @ [\<lparr>driver_id = d_id driver, package_id = p_id pkg, distance = dist\<rparr>]
           else matches)"

fun brute_outer :: "Driver list \<Rightarrow> Package list \<Rightarrow> real \<Rightarrow> MatchResult list \<Rightarrow> MatchResult list" where
  "brute_outer [] packages max_distance matches = matches"
| "brute_outer (driver # rest) packages max_distance matches =
     brute_outer rest packages max_distance (brute_inner driver max_distance packages matches)"

definition find_matches_brute_force :: "Driver list \<Rightarrow> Package list \<Rightarrow> real \<Rightarrow> MatchResult list" where
  "find_matches_brute_force drivers packages max_distance =
     brute_outer drivers packages max_distance []"

section \<open>The matcher without the bounding-box pre-check\<close>

text \<open>
  The same pipeline with the test \<^verbatim>\<open>abs(driver.x - pkg.x) <= max_distance and
  abs(driver.y - pkg.y) <= max_distance\<close> deleted from the innermost loop; everything else
  is as in \<^verbatim>\<open>find_matches_optimized\<close>. It is the comparison partner for the claim that
  the pre-check never rejects a match.
\<close>

fun scan_bucket_nobox :: "Driver \<Rightarrow> real \<Rightarrow> Package list \<Rightarrow> MatchResult list
    \<Rightarrow> MatchResult list" where
  "scan_bucket_nobox driver max_distance [] matches = matches"
| "scan_bucket_nobox driver max_distance (pkg # rest) matches =
     scan_bucket_nobox driver max_distance rest
       (let dist_sq = (d_x driver - p_x pkg)\<^sup>2 + (d_y driver - p_y pkg)\<^sup>2
        in if of_int dist_sq < max_distance\<^sup>2
           then matches @ [\<lparr>driver_id = d_id driver, package_id = p_id pkg,
                            distance = sqrt (of_int dist_sq)\<rparr>]
           else matches)"

fun scan_j_nobox :: "Driver \<Rightarrow> real \<Rightarrow> grid \<Rightarrow> int \<Rightarrow> int \<Rightarrow> int \<Rightarrow> int list
    \<Rightarrow> MatchResult list \<Rightarrow> MatchResult list" where
  "scan_j_nobox driver max_distance g dx_grid dy_grid i [] matches = matches"
| "scan_j_nobox driver max_distance g dx_grid dy_grid i (j # js) matches =
     scan_j_nobox driver max_distance g dx_grid dy_grid i js
       (let neighbor_key = (dx_grid + i, dy_grid + j)
        in case g neighbor_key of
             None \<Rightarrow> matches
           | Some b \<Rightarrow> scan_bucket_nobox driver max_distance b matches)"

fun scan_i_nobox :: "Driver \<Rightarrow> real \<Rightarrow> grid \<Rightarrow> int \<Rightarrow> int \<Rightarrow> int list
    \<Rightarrow> MatchResult list \<Rightarrow> MatchResult list" where
  "scan_i_nobox driver max_distance g dx_grid dy_grid [] matches = matches"
| "scan_i_nobox driver max_distance g dx_grid dy_grid (i # is) matches =
     scan_i_nobox driver max_distance g dx_grid dy_grid is
       (scan_j_nobox driver max_distance g dx_grid dy_grid i range_m1_2 matches)"

fun query_drivers_nobox :: "Driver list \<Rightarrow> grid \<Rightarrow> int \<Rightarrow> real \<Rightarrow> MatchResult list
    \<Rightarrow> error + MatchResult list" where
  "query_drivers_nobox [] g cell_size max_distance matches = Inr matches"
| "query_drivers_nobox (driver # rest) g cell_size max_distance matches =
     (case get_grid_key (d_x driver) (d_y driver) cell_size of
        Inl e \<Rightarrow> Inl e
      | Inr (dx_grid, dy_grid) \<Rightarrow>
          query_drivers_nobox rest g cell_size max_distance
            (scan_i_nobox driver max_distance g dx_grid dy_grid range_m1_2 matches))"

definition find_matches_optimized_nobox :: "Driver list \<Rightarrow> Package list \<Rightarrow> real
    \<Rightarrow> error + MatchResult list" where
  "find_matches_optimized_nobox drivers packages max_distance =
     (let cell_size = py_int max_distance
      in case populate_grid packages cell_size Map.empty of
           Inl e \<Rightarrow> Inl e
         | Inr g \<Rightarrow> query_drivers_nobox drivers g cell_size max_distance [])"

section \<open>Pearson correlation of \<^verbatim>\<open>analyze_logs.py\<close>\<close>

text \<open>
  The lists hold Python numbers, modelled as reals. \<^verbatim>\<open>statistics.mean\<close> raises
  \<^verbatim>\<open>StatisticsError\<close> on empty data, and \<^verbatim>\<open>/\<close> raises \<^verbatim>\<open>ZeroDivisionError\<close> on a
  zero divisor. \<^verbatim>\<open>zip\<close> stops at the shorter list, as \<^const>\<open>zip\<close> does. The power
  \<^verbatim>\<open>** 0.5\<close> is applied to a product of two sums of squares, which is never negative,
  where it is the square root.
\<close>

definition mean :: "real list \<Rightarrow> error + real" where
  "mean data = (if data = [] then Inl StatisticsError
                else Inr (sum_list data / of_nat (length data)))"

definition py_truediv :: "real \<Rightarrow> real \<Rightarrow> error + real" where
  "py_truediv a b = (if b = 0 then Inl ZeroDivisionError else Inr (a / b))"

definition pearson_correlation :: "real list \<Rightarrow> real list \<Rightarrow> error + real" where
  "pearson_correlation xs ys =
     (let n = length xs
      in if n < 2 then Inr 0
         else
           (case mean xs of
              Inl e \<Rightarrow> Inl e
            | Inr mean_x \<Rightarrow>
                (case mean ys of
                   Inl e \<Rightarrow> Inl e
                 | Inr mean_y \<Rightarrow>
                     (let numerator =
                            sum_list (map (\<lambda>(x, y). (x - mean_x) * (y - mean_y)) (zip xs ys));
                          denominator =
                            sqrt (sum_list (map (\<lambda>x. (x - mean_x)\<^sup>2) xs)
                                  * sum_list (map (\<lambda>y. (y - mean_y)\<^sup>2) ys))
                      in if denominator \<noteq> 0 then py_truediv numerator denominator
                         else Inr 0))))"

section \<open>Vocabulary for the statements\<close>

text \<open>
  Names for the pieces of the code the statements talk about: the squared distance of
  line 94, the \<^verbatim>\<open>MatchResult\<close> both matchers append, the acceptance test of the grid
  matcher (lines 93 and 95), the acceptance test of the brute-force matcher (line 113),
  the cell of a package and of a driver under \<^const>\<open>get_grid_key\<close>, the nine keys the
  two nested \<^verbatim>\<open>range(-1, 2)\<close> loops visit in their order, and what one driver collects
  from an input package list cell by cell.
\<close>

definition dist_sq :: "Driver \<Rightarrow> Package \<Rightarrow> int" where
  "dist_sq driver pkg = (d_x driver - p_x pkg)\<^sup>2 + (d_y driver - p_y pkg)\<^sup>2"

definition make_match :: "Driver \<Rightarrow> Package \<Rightarrow> MatchResult" where
  "make_match driver pkg =
     \<lparr>driver_id = d_id driver, package_id = p_id pkg, distance = sqrt (of_int (dist_sq driver pkg))\<rparr>"

definition accepts :: "Driver \<Rightarrow> real \<Rightarrow> Package \<Rightarrow> bool" where
  "accepts driver max_distance pkg \<longleftrightarrow>
     \<bar>of_int (d_x driver - p_x pkg)\<bar> \<le> max_distance
     \<and> \<bar>of_int (d_y driver - p_y pkg)\<bar> \<le> max_distance
     \<and> of_int (dist_sq driver pkg) < max_distance\<^sup>2"

definition in_reach :: "Driver \<Rightarrow> real \<Rightarrow> Package \<Rightarrow> bool" where
  "in_reach driver max_distance pkg \<longleftrightarrow> sqrt (of_int (dist_sq driver pkg)) < max_distance"

definition cell_of :: "int \<Rightarrow> Package \<Rightarrow> int \<times> int" where
  "cell_of cell_size pkg = (p_x pkg div cell_size, p_y pkg div cell_size)"

definition accepts_nobox :: "Driver \<Rightarrow> real \<Rightarrow> Package \<Rightarrow> bool" where
  "accepts_nobox driver max_distance pkg \<longleftrightarrow> of_int (dist_sq driver pkg) < max_distance\<^sup>2"

definition neighbor_keys :: "int \<times> int \<Rightarrow> (int \<times> int) list" where
  "neighbor_keys key =
     concat (map (\<lambda>i. map (\<lambda>j. (fst key + i, snd key + j)) range_m1_2) range_m1_2)"

definition driver_cell :: "int \<Rightarrow> Driver \<Rightarrow> int \<times> int" where
  "driver_cell cell_size driver = (d_x driver div cell_size, d_y driver div cell_size)"

definition neighborhood :: "int \<Rightarrow> real \<Rightarrow> Package list \<Rightarrow> Driver \<Rightarrow> MatchResult list" where
  "neighborhood c md packages driver =
     concat (map (\<lambda>key. map (make_match driver) (filter (accepts driver md)
        (filter (\<lambda>p. cell_of c p = key) packages))) (neighbor_keys (driver_cell c driver)))"


section \<open>The loops in closed form\<close>

lemma populate_grid_zero: "packages \<noteq> [] \<Longrightarrow> populate_grid packages 0 g = Inl ZeroDivisionError"
  by (cases packages) (simp_all add: get_grid_key_def)

lemma populate_grid_buckets:
  "c \<noteq> 0 \<Longrightarrow> \<exists>g'. populate_grid packages c g = Inr g'
      \<and> (\<forall>k. bucket g' k = bucket g k @ filter (\<lambda>p. cell_of c p = k) packages)
      \<and> (\<forall>k. g' k = None \<longleftrightarrow> g k = None \<and> filter (\<lambda>p. cell_of c p = k) packages = [])"
proof (induction packages arbitrary: g)
  case Nil
  then show ?case by simp
next
  case (Cons pkg rest)
  let ?key = "cell_of c pkg"
  let ?g = "g(?key \<mapsto> bucket g ?key @ [pkg])"
  from Cons.IH [OF Cons.prems, of ?g] obtain g' where
    run: "populate_grid rest c ?g = Inr g'"
    and bs: "\<forall>k. bucket g' k = bucket ?g k @ filter (\<lambda>p. cell_of c p = k) rest"
    and dom: "\<forall>k. g' k = None \<longleftrightarrow> ?g k = None \<and> filter (\<lambda>p. cell_of c p = k) rest = []"
    by blast
  have "populate_grid (pkg # rest) c g = Inr g'"
    using run Cons.prems by (simp add: get_grid_key_def cell_of_def bucket_def)
  moreover have "bucket g' k = bucket g k @ filter (\<lambda>p. cell_of c p = k) (pkg # rest)" for k
    using bs [rule_format, of k] by (cases "cell_of c pkg = k") (simp_all add: bucket_def)
  moreover have "g' k = None \<longleftrightarrow> g k = None \<and> filter (\<lambda>p. cell_of c p = k) (pkg # rest) = []" for k
    using dom [rule_format, of k] by (cases "cell_of c pkg = k") simp_all
  ultimately show ?case by blast
qed

lemma scan_bucket_eq:
  "scan_bucket driver md b matches = matches @ map (make_match driver) (filter (accepts driver md) b)"
  by (induction b arbitrary: matches) (simp_all add: accepts_def make_match_def dist_sq_def Let_def)

lemma scan_j_eq:
  "scan_j driver md g cx cy i js matches =
     matches @ concat (map (\<lambda>j. map (make_match driver) (filter (accepts driver md) (bucket g (cx + i, cy + j)))) js)"
  by (induction js arbitrary: matches) (simp_all add: scan_bucket_eq bucket_def split: option.split)

lemma scan_i_eq:
  "scan_i driver md g cx cy is matches =
     matches @ concat (map (\<lambda>i. concat (map (\<lambda>j. map (make_match driver)
        (filter (accepts driver md) (bucket g (cx + i, cy + j)))) range_m1_2)) is)"
  by (induction "is" arbitrary: matches) (simp_all add: scan_j_eq)

lemma brute_inner_eq:
  "brute_inner driver md packages matches =
     matches @ map (make_match driver) (filter (in_reach driver md) packages)"
  by (induction packages arbitrary: matches) (simp_all add: in_reach_def make_match_def dist_sq_def Let_def)

lemma brute_outer_eq:
  "brute_outer drivers packages md matches =
     matches @ concat (map (\<lambda>d. map (make_match d) (filter (in_reach d md) packages)) drivers)"
  by (induction drivers arbitrary: matches) (simp_all add: brute_inner_eq)

lemma query_drivers_zero:
  "drivers \<noteq> [] \<Longrightarrow> query_drivers drivers g 0 md matches = Inl ZeroDivisionError"
  by (cases drivers) (simp_all add: get_grid_key_def)

lemma scan_i_keys:
  "scan_i driver md g cx cy range_m1_2 matches =
     matches @ concat (map (\<lambda>key. map (make_match driver) (filter (accepts driver md) (bucket g key)))
        (neighbor_keys (cx, cy)))"
  by (simp add: scan_i_eq neighbor_keys_def range_m1_2_def)

lemma query_drivers_eq:
  "c \<noteq> 0 \<Longrightarrow> query_drivers drivers g c md matches =
     Inr (matches @ concat (map (\<lambda>d. concat (map (\<lambda>key. map (make_match d)
        (filter (accepts d md) (bucket g key))) (neighbor_keys (driver_cell c d)))) drivers))"
  by (induction drivers arbitrary: matches)
     (simp_all add: get_grid_key_def scan_i_keys driver_cell_def)

lemma optimized_eq:
  assumes "py_int md \<noteq> 0"
  shows "find_matches_optimized drivers packages md =
           Inr (concat (map (neighborhood (py_int md) md packages) drivers))"
proof -
  from populate_grid_buckets [OF assms, of packages Map.empty] obtain g where
    run: "populate_grid packages (py_int md) Map.empty = Inr g"
    and bs: "\<And>k. bucket g k = filter (\<lambda>p. cell_of (py_int md) p = k) packages"
    by (auto simp: bucket_def)
  have nb: "neighborhood (py_int md) md packages =
      (\<lambda>d. concat (map (\<lambda>key. map (make_match d) (filter (accepts d md) (bucket g key)))
         (neighbor_keys (driver_cell (py_int md) d))))"
    by (rule ext) (simp only: neighborhood_def bs)
  show ?thesis
    by (simp only: find_matches_optimized_def Let_def run sum.case query_drivers_eq [OF assms] nb
        append_Nil)
qed

lemma optimized_zero:
  assumes "py_int md = 0"
  shows "find_matches_optimized drivers packages md =
           (if drivers = [] \<and> packages = [] then Inr [] else Inl ZeroDivisionError)"
proof (cases packages)
  case Nil
  then show ?thesis
    using assms query_drivers_zero [of drivers Map.empty md "[]"]
    by (cases drivers) (simp_all add: find_matches_optimized_def)
next
  case (Cons p ps)
  then show ?thesis
    using assms populate_grid_zero [of packages Map.empty]
    by (simp add: find_matches_optimized_def)
qed

lemma brute_force_eq:
  "find_matches_brute_force drivers packages md =
     concat (map (\<lambda>d. map (make_match d) (filter (in_reach d md) packages)) drivers)"
  by (simp add: find_matches_brute_force_def brute_outer_eq)

lemma sqrt_less_threshold: "0 < md \<Longrightarrow> sqrt x < md \<longleftrightarrow> x < md\<^sup>2"
  using real_sqrt_less_iff [of x "md\<^sup>2"] by simp

lemma square_less_abs:
  fixes a b :: int and md :: real
  assumes "0 < md" "of_int (a\<^sup>2 + b\<^sup>2) < md\<^sup>2"
  shows "\<bar>of_int a\<bar> < md"
proof -
  have "0 \<le> (of_int b :: real)\<^sup>2" by (rule zero_le_power2)
  then have "(of_int a :: real)\<^sup>2 \<le> of_int (a\<^sup>2 + b\<^sup>2)" by simp
  then have "\<bar>of_int a :: real\<bar>\<^sup>2 < md\<^sup>2" using assms(2) by (simp only: power2_abs)
  then show ?thesis using assms(1) by (simp add: power2_less_imp_less)
qed




lemma dist_sq_nonneg: "0 \<le> dist_sq driver pkg"
  by (simp add: dist_sq_def)

lemma accepts_iff_in_reach: "accepts driver md pkg \<longleftrightarrow> in_reach driver md pkg"
proof (cases "0 < md")
  case True
  have "\<bar>of_int (d_x driver - p_x pkg)\<bar> \<le> md \<and> \<bar>of_int (d_y driver - p_y pkg)\<bar> \<le> md"
    if lt: "of_int (dist_sq driver pkg) < md\<^sup>2"
  proof -
    have "\<bar>of_int (d_x driver - p_x pkg)\<bar> < md"
      using square_less_abs [OF True, of "d_x driver - p_x pkg" "d_y driver - p_y pkg"] lt
      by (simp only: dist_sq_def)
    moreover have "\<bar>of_int (d_y driver - p_y pkg)\<bar> < md"
      using square_less_abs [OF True, of "d_y driver - p_y pkg" "d_x driver - p_x pkg"] lt
      by (simp only: dist_sq_def add.commute)
    ultimately show ?thesis by simp
  qed
  then show ?thesis
    using sqrt_less_threshold [OF True, of "of_int (dist_sq driver pkg)"]
    by (auto simp only: accepts_def in_reach_def)
next
  case False
  have "0 \<le> real_of_int (dist_sq driver pkg)"
    using dist_sq_nonneg [of driver pkg] by simp
  then have "0 \<le> sqrt (real_of_int (dist_sq driver pkg))"
    by (rule real_sqrt_ge_zero)
  then have "\<not> in_reach driver md pkg"
    unfolding in_reach_def using False by linarith
  moreover have "\<not> accepts driver md pkg"
  proof
    assume a: "accepts driver md pkg"
    then have "\<bar>real_of_int (d_x driver - p_x pkg)\<bar> \<le> md" by (simp only: accepts_def)
    then have "0 \<le> md" using abs_ge_zero [of "real_of_int (d_x driver - p_x pkg)"] by linarith
    with False have "md = 0" by simp
    with a dist_sq_nonneg [of driver pkg] show False by (simp add: accepts_def)
  qed
  ultimately show ?thesis by simp
qed








lemma count_list_filter:
  "count_list (filter P xs) x = (if P x then count_list xs x else 0)"
  by (induction xs) auto

lemma in_reach_positive: "in_reach driver md pkg \<Longrightarrow> 0 < md"
proof -
  assume r: "in_reach driver md pkg"
  have "0 \<le> real_of_int (dist_sq driver pkg)"
    using dist_sq_nonneg [of driver pkg] by simp
  then have "0 \<le> sqrt (real_of_int (dist_sq driver pkg))"
    by (rule real_sqrt_ge_zero)
  with r show ?thesis unfolding in_reach_def by linarith
qed






lemma neighborhood_nonpositive:
  assumes "md \<le> 0"
  shows "neighborhood c md packages driver = []"
proof -
  have "\<not> accepts driver md p" for p
    using in_reach_positive [of driver md p] assms by (auto simp: accepts_iff_in_reach)
  then show ?thesis by (simp add: neighborhood_def)
qed

lemma neighborhood_priority:
  "neighborhood c md (map (priority_update f) packages) driver =
     neighborhood c md packages driver"
proof -
  have "map (make_match driver) (filter (accepts driver md)
          (filter (\<lambda>p. cell_of c p = key) (map (priority_update f) packages))) =
        map (make_match driver) (filter (accepts driver md)
          (filter (\<lambda>p. cell_of c p = key) packages))" for key
    by (induction packages) (simp_all add: make_match_def accepts_def cell_of_def dist_sq_def)
  then show ?thesis by (simp only: neighborhood_def)
qed

lemma optimized_priority:
  "find_matches_optimized drivers (map (priority_update f) packages) md =
     find_matches_optimized drivers packages md"
proof (cases "py_int md = 0")
  case True
  then show ?thesis by (simp add: optimized_zero)
next
  case False
  have "neighborhood (py_int md) md (map (priority_update f) packages) =
      neighborhood (py_int md) md packages"
    by (rule ext) (rule neighborhood_priority)
  then show ?thesis by (simp only: optimized_eq [OF False])
qed

lemma brute_force_priority:
  "find_matches_brute_force drivers (map (priority_update f) packages) md =
     find_matches_brute_force drivers packages md"
proof -
  have "map (make_match d) (filter (in_reach d md) (map (priority_update f) packages)) =
        map (make_match d) (filter (in_reach d md) packages)" for d
    by (induction packages) (simp_all add: make_match_def in_reach_def dist_sq_def)
  then show ?thesis by (simp only: brute_force_eq)
qed

lemma scan_bucket_nobox_eq:
  "scan_bucket_nobox driver md b matches =
     matches @ map (make_match driver) (filter (accepts_nobox driver md) b)"
  by (induction b arbitrary: matches)
     (simp_all add: accepts_nobox_def make_match_def dist_sq_def Let_def)

lemma scan_j_nobox_eq:
  "scan_j_nobox driver md g cx cy i js matches =
     matches @ concat (map (\<lambda>j. map (make_match driver)
        (filter (accepts_nobox driver md) (bucket g (cx + i, cy + j)))) js)"
  by (induction js arbitrary: matches)
     (simp_all add: scan_bucket_nobox_eq bucket_def split: option.split)

lemma scan_i_nobox_eq:
  "scan_i_nobox driver md g cx cy is matches =
     matches @ concat (map (\<lambda>i. concat (map (\<lambda>j. map (make_match driver)
        (filter (accepts_nobox driver md) (bucket g (cx + i, cy + j)))) range_m1_2)) is)"
  by (induction "is" arbitrary: matches) (simp_all add: scan_j_nobox_eq)

lemma accepts_nobox_iff: "0 < md \<Longrightarrow> accepts_nobox driver md pkg \<longleftrightarrow> accepts driver md pkg"
  by (simp add: accepts_iff_in_reach in_reach_def accepts_nobox_def sqrt_less_threshold)

lemma scan_i_nobox_same:
  "0 < md \<Longrightarrow> scan_i_nobox driver md g cx cy is matches = scan_i driver md g cx cy is matches"
proof -
  assume "0 < md"
  then have "accepts_nobox driver md = accepts driver md"
    by (intro ext) (rule accepts_nobox_iff)
  then show ?thesis by (simp only: scan_i_nobox_eq scan_i_eq)
qed

lemma query_drivers_nobox_same:
  "0 < md \<Longrightarrow> query_drivers_nobox drivers g c md matches = query_drivers drivers g c md matches"
  by (induction drivers arbitrary: matches)
     (simp_all add: scan_i_nobox_same split: sum.split prod.split)

lemma py_truediv_nonzero: "b \<noteq> 0 \<Longrightarrow> py_truediv a b = Inr (a / b)"
  by (simp add: py_truediv_def)


lemma pearson_no_zero_division: "pearson_correlation xs ys \<noteq> Inl ZeroDivisionError"
  by (auto simp: pearson_correlation_def mean_def py_truediv_def Let_def)


section \<open>The claims\<close>

subsection \<open>C1: the grid matcher against the brute-force matcher\<close>

text \<open>
  C1. The claim: for every \<^verbatim>\<open>max_distance > 0\<close> the grid matcher and the brute-force
  matcher return the same matches. At \<^verbatim>\<open>max_distance = 0.5\<close> the cell size
  \<^verbatim>\<open>int(0.5)\<close> is 0 and the first \<^verbatim>\<open>//\<close> raises \<^verbatim>\<open>ZeroDivisionError\<close>, while
  the brute-force matcher pairs a driver with a package on the same point. (For
  \<^verbatim>\<open>max_distance >= 1\<close> the two results are permutations of each other, see
  \<open>optimized_mset_brute\<close>.)
\<close>

theorem optimized_raises_below_one:
  "find_matches_optimized [\<lparr>d_id = 1, d_x = 0, d_y = 0\<rparr>]
       [\<lparr>p_id = 1, p_x = 0, p_y = 0, priority = ''high''\<rparr>] (1/2) = Inl ZeroDivisionError
   \<and> find_matches_brute_force [\<lparr>d_id = 1, d_x = 0, d_y = 0\<rparr>]
       [\<lparr>p_id = 1, p_x = 0, p_y = 0, priority = ''high''\<rparr>] (1/2)
     = [\<lparr>driver_id = 1, package_id = 1, distance = 0\<rparr>]"
  by (simp add: find_matches_optimized_def find_matches_brute_force_def py_int_def get_grid_key_def)

subsection \<open>C2: the cell size\<close>

text \<open>
  C2. The claim: the cell size equals \<^verbatim>\<open>max_distance\<close>, so it is at least
  \<^verbatim>\<open>max_distance\<close> and positive. The code takes \<^verbatim>\<open>int(max_distance)\<close>: for
  \<^verbatim>\<open>max_distance = 50.7\<close> the cell size is 50, below the threshold (a package at
  \<^verbatim>\<open>x = 50\<close> lands in cell 1, not in cell 0), and for \<^verbatim>\<open>max_distance = 0.5\<close> it is 0.
\<close>

theorem cell_size_truncated:
  "py_int (507/10) = 50
   \<and> real_of_int (py_int (507/10)) < 507/10
   \<and> py_int (1/2) = 0
   \<and> populate_grid [\<lparr>p_id = 1, p_x = 50, p_y = 0, priority = ''high''\<rparr>] (py_int (507/10)) Map.empty
       = Inr (Map.empty((1, 0) \<mapsto> [\<lparr>p_id = 1, p_x = 50, p_y = 0, priority = ''high''\<rparr>]))"
proof -
  have "py_int (507/10) = 50" unfolding py_int_def by (simp add: floor_eq_iff)
  moreover have "py_int (1/2) = 0" unfolding py_int_def by simp
  ultimately show ?thesis by (simp add: get_grid_key_def)
qed

subsection \<open>C3: the exclusive threshold\<close>



subsection \<open>C4: a non-positive threshold\<close>

text \<open>
  C4. The claim: a \<^verbatim>\<open>max_distance <= 0\<close> raises a configuration error before any work.
  The code validates nothing. With a non-positive threshold no match is ever produced:
  every list the grid matcher returns is empty, for \<^verbatim>\<open>max_distance <= -1\<close> (cell size
  \<^verbatim>\<open>int(max_distance) <= -1\<close>) it builds the grid, scans it and returns the empty list,
  and the brute-force matcher returns the empty list.
\<close>

theorem no_threshold_validation:
  assumes "max_distance \<le> 0"
  shows "(find_matches_optimized drivers packages max_distance = Inr ms \<longrightarrow> ms = [])
     \<and> (max_distance \<le> -1 \<longrightarrow> find_matches_optimized drivers packages max_distance = Inr [])
     \<and> find_matches_brute_force drivers packages max_distance = []"
proof (intro conjI impI)
  have nb: "neighborhood (py_int max_distance) max_distance packages = (\<lambda>d. [])"
    by (rule ext) (rule neighborhood_nonpositive [OF assms])
  have nz: "find_matches_optimized drivers packages max_distance = Inr []"
    if "py_int max_distance \<noteq> 0"
    by (simp add: optimized_eq [OF that] nb)
  {
    assume r: "find_matches_optimized drivers packages max_distance = Inr ms"
    show "ms = []"
    proof (cases "py_int max_distance = 0")
      case True
      with r show ?thesis by (simp add: optimized_zero split: if_splits)
    next
      case False
      with r nz show ?thesis by simp
    qed
  }
  {
    assume "max_distance \<le> -1"
    then have "\<lceil>max_distance\<rceil> \<le> -1" by (simp add: ceiling_le_iff)
    moreover have "py_int max_distance = \<lceil>max_distance\<rceil>"
      using \<open>max_distance \<le> -1\<close> by (simp add: py_int_def)
    ultimately have "py_int max_distance \<noteq> 0" by linarith
    then show "find_matches_optimized drivers packages max_distance = Inr []" by (rule nz)
  }
  have "\<not> in_reach d max_distance p" for d p
    using in_reach_positive [of d max_distance p] assms by auto
  then show "find_matches_brute_force drivers packages max_distance = []"
    by (simp add: brute_force_eq)
qed

theorem no_threshold_validation_witness:
  "(-50::real) \<le> 0 \<and> (-50::real) \<le> -1
   \<and> find_matches_optimized [\<lparr>d_id = 1, d_x = 0, d_y = 0\<rparr>]
        [\<lparr>p_id = 1, p_x = 0, p_y = 0, priority = ''high''\<rparr>] (-50) = Inr []
   \<and> find_matches_brute_force [\<lparr>d_id = 1, d_x = 0, d_y = 0\<rparr>]
        [\<lparr>p_id = 1, p_x = 0, p_y = 0, priority = ''high''\<rparr>] (-50) = []"
proof -
  have h: "(-50::real) \<le> 0" by simp
  show ?thesis
    using no_threshold_validation [OF h, of "[\<lparr>d_id = 1, d_x = 0, d_y = 0\<rparr>]"
      "[\<lparr>p_id = 1, p_x = 0, p_y = 0, priority = ''high''\<rparr>]" "[]"]
    by simp
qed

text \<open>
  The claim fails at \<^verbatim>\<open>max_distance = -50\<close>: the matcher returns the empty list and
  raises nothing. At \<^verbatim>\<open>max_distance = 0\<close> the only exception is the
  \<^verbatim>\<open>ZeroDivisionError\<close> of the first grid key, and with empty inputs there is none.
\<close>

theorem negative_threshold_returns_empty:
  "find_matches_optimized [\<lparr>d_id = 1, d_x = 0, d_y = 0\<rparr>]
        [\<lparr>p_id = 1, p_x = 0, p_y = 0, priority = ''high''\<rparr>] (-50) = Inr []
   \<and> find_matches_optimized [\<lparr>d_id = 1, d_x = 0, d_y = 0\<rparr>]
        [\<lparr>p_id = 1, p_x = 0, p_y = 0, priority = ''high''\<rparr>] 0 = Inl ZeroDivisionError
   \<and> find_matches_optimized [] [] 0 = Inr []"
  by (simp add: find_matches_optimized_def py_int_def get_grid_key_def range_m1_2_def)

subsection \<open>C5: floor division in the grid key\<close>



subsection \<open>C6: the order of the result\<close>

text \<open>
  C6. Every list the grid matcher returns is the concatenation, over the drivers in input
  order, of the driver's matches; those are the concatenation over \<open>i = -1, 0, 1\<close> (outer)
  and \<open>j = -1, 0, 1\<close> (inner) of the accepted packages of cell \<open>(cx + i, cy + j)\<close>, each
  cell in the input order of the packages. It returns such a list whenever the cell size
  is not 0.
\<close>

theorem optimized_agent_major:
  "(py_int max_distance \<noteq> 0 \<longrightarrow>
      find_matches_optimized drivers packages max_distance =
        Inr (concat (map (\<lambda>driver.
               concat (map (\<lambda>i.
                 concat (map (\<lambda>j.
                   map (make_match driver)
                     (filter (accepts driver max_distance)
                       (filter (\<lambda>pkg. cell_of (py_int max_distance) pkg =
                          (d_x driver div py_int max_distance + i,
                           d_y driver div py_int max_distance + j)) packages)))
                 [-1, 0, 1])) [-1, 0, 1])) drivers)))
   \<and> (find_matches_optimized drivers packages max_distance = Inr ms \<longrightarrow>
        ms = concat (map (\<lambda>driver.
               concat (map (\<lambda>i.
                 concat (map (\<lambda>j.
                   map (make_match driver)
                     (filter (accepts driver max_distance)
                       (filter (\<lambda>pkg. cell_of (py_int max_distance) pkg =
                          (d_x driver div py_int max_distance + i,
                           d_y driver div py_int max_distance + j)) packages)))
                 [-1, 0, 1])) [-1, 0, 1])) drivers))"
proof (cases "py_int max_distance = 0")
  case True
  then show ?thesis
    by (auto simp: optimized_zero [OF True] split: if_splits)
next
  case False
  have "neighborhood (py_int max_distance) max_distance packages =
      (\<lambda>driver. concat (map (\<lambda>i. concat (map (\<lambda>j.
          map (make_match driver)
            (filter (accepts driver max_distance)
              (filter (\<lambda>pkg. cell_of (py_int max_distance) pkg =
                 (d_x driver div py_int max_distance + i,
                  d_y driver div py_int max_distance + j)) packages)))
          [-1, 0, 1])) [-1, 0, 1]))"
    by (rule ext)
       (simp only: neighborhood_def neighbor_keys_def range_m1_2_def driver_cell_def
          fst_conv snd_conv list.map concat.simps append.simps append_Nil2 append_assoc)
  then show ?thesis
    using optimized_eq [OF False, of drivers packages] by simp
qed

theorem optimized_agent_major_witness:
  "py_int 50 \<noteq> 0
   \<and> find_matches_optimized
        [\<lparr>d_id = 1, d_x = 0, d_y = 0\<rparr>, \<lparr>d_id = 2, d_x = 100, d_y = 100\<rparr>]
        [\<lparr>p_id = 1, p_x = 30, p_y = 0, priority = ''high''\<rparr>,
         \<lparr>p_id = 2, p_x = -10, p_y = -10, priority = ''high''\<rparr>,
         \<lparr>p_id = 3, p_x = 110, p_y = 100, priority = ''high''\<rparr>] 50
     = Inr [\<lparr>driver_id = 1, package_id = 2, distance = sqrt 200\<rparr>,
            \<lparr>driver_id = 1, package_id = 1, distance = sqrt 900\<rparr>,
            \<lparr>driver_id = 2, package_id = 3, distance = sqrt 100\<rparr>]"
proof -
  have nz: "py_int 50 \<noteq> 0" by (simp add: py_int_def)
  have c: "py_int 50 = 50" by (simp add: py_int_def)
  show ?thesis
    using nz optimized_agent_major [of 50
        "[\<lparr>d_id = 1, d_x = 0, d_y = 0\<rparr>, \<lparr>d_id = 2, d_x = 100, d_y = 100\<rparr>]"
        "[\<lparr>p_id = 1, p_x = 30, p_y = 0, priority = ''high''\<rparr>,
         \<lparr>p_id = 2, p_x = -10, p_y = -10, priority = ''high''\<rparr>,
         \<lparr>p_id = 3, p_x = 110, p_y = 100, priority = ''high''\<rparr>]" "[]"]
    by (simp add: c make_match_def accepts_def cell_of_def dist_sq_def)
qed

subsection \<open>C7: the grid index\<close>

text \<open>
  C7. For a cell size other than 0 the population loop succeeds, and the bucket of a key
  holds exactly the input packages whose grid key is that key, in input order: each
  package occurs in the bucket of its own key as often as in the input and in no other
  bucket. A key is absent exactly when no package has it, and scanning an absent key
  leaves the match list as it is.
\<close>

theorem grid_index_partition:
  assumes "cell_size \<noteq> 0"
  shows "\<exists>g. populate_grid packages cell_size Map.empty = Inr g
     \<and> (\<forall>p \<in> set packages. get_grid_key (p_x p) (p_y p) cell_size = Inr (cell_of cell_size p))
     \<and> (\<forall>key. bucket g key = filter (\<lambda>p. cell_of cell_size p = key) packages)
     \<and> (\<forall>key p. count_list (bucket g key) p =
           (if cell_of cell_size p = key then count_list packages p else 0))
     \<and> (\<forall>key. g key = None \<longleftrightarrow> (\<forall>p \<in> set packages. cell_of cell_size p \<noteq> key))
     \<and> (\<forall>driver md cx cy i j ms. g (cx + i, cy + j) = None \<longrightarrow>
           scan_j driver md g cx cy i [j] ms = ms)"
proof -
  from populate_grid_buckets [OF assms, of packages Map.empty] obtain g where
    run: "populate_grid packages cell_size Map.empty = Inr g"
    and bs: "\<And>k. bucket g k = filter (\<lambda>p. cell_of cell_size p = k) packages"
    and dom: "\<And>k. g k = None \<longleftrightarrow> filter (\<lambda>p. cell_of cell_size p = k) packages = []"
    by (auto simp: bucket_def)
  have "get_grid_key (p_x p) (p_y p) cell_size = Inr (cell_of cell_size p)" for p
    using assms by (simp add: get_grid_key_def cell_of_def)
  moreover have "count_list (bucket g key) p =
      (if cell_of cell_size p = key then count_list packages p else 0)" for key p
    by (simp only: bs count_list_filter)
  moreover have "g key = None \<longleftrightarrow> (\<forall>p \<in> set packages. cell_of cell_size p \<noteq> key)" for key
    by (simp add: dom filter_empty_conv)
  moreover have "scan_j driver md g cx cy i [j] ms = ms" if "g (cx + i, cy + j) = None"
    for driver md cx cy i j ms
    using that by simp
  ultimately show ?thesis using run bs by blast
qed

theorem grid_index_partition_witness:
  "(50::int) \<noteq> 0
   \<and> (\<exists>g. populate_grid
          [\<lparr>p_id = 1, p_x = 30, p_y = 0, priority = ''high''\<rparr>,
           \<lparr>p_id = 2, p_x = -10, p_y = -10, priority = ''low''\<rparr>,
           \<lparr>p_id = 3, p_x = 10, p_y = 49, priority = ''high''\<rparr>] 50 Map.empty = Inr g
        \<and> bucket g (0, 0) = [\<lparr>p_id = 1, p_x = 30, p_y = 0, priority = ''high''\<rparr>,
                               \<lparr>p_id = 3, p_x = 10, p_y = 49, priority = ''high''\<rparr>]
        \<and> bucket g (-1, -1) = [\<lparr>p_id = 2, p_x = -10, p_y = -10, priority = ''low''\<rparr>]
        \<and> g (1, 1) = None)"
proof -
  let ?ps = "[\<lparr>p_id = 1, p_x = 30, p_y = 0, priority = ''high''\<rparr>,
           \<lparr>p_id = 2, p_x = -10, p_y = -10, priority = ''low''\<rparr>,
           \<lparr>p_id = 3, p_x = 10, p_y = 49, priority = ''high''\<rparr>]"
  have nz: "(50::int) \<noteq> 0" by simp
  from grid_index_partition [OF nz, of ?ps] obtain g where
    run: "populate_grid ?ps 50 Map.empty = Inr g"
    and bs: "\<forall>key. bucket g key = filter (\<lambda>p. cell_of 50 p = key) ?ps"
    and dom: "\<forall>key. g key = None \<longleftrightarrow> (\<forall>p \<in> set ?ps. cell_of 50 p \<noteq> key)"
    by blast
  have "bucket g (0, 0) = [\<lparr>p_id = 1, p_x = 30, p_y = 0, priority = ''high''\<rparr>,
                               \<lparr>p_id = 3, p_x = 10, p_y = 49, priority = ''high''\<rparr>]"
    using bs by (simp add: cell_of_def)
  moreover have "bucket g (-1, -1) = [\<lparr>p_id = 2, p_x = -10, p_y = -10, priority = ''low''\<rparr>]"
    using bs by (simp add: cell_of_def)
  moreover have "g (1, 1) = None"
    using dom by (simp add: cell_of_def)
  ultimately show ?thesis using run by simp
qed

subsection \<open>C8: the priority field\<close>

text \<open>
  C8. Neither matcher reads \<^verbatim>\<open>priority\<close>: two package lists that agree once every
  priority is blanked (same length, same identifiers and coordinates in the same order)
  give the same result in the grid matcher, the error case included, and the same match
  list in the brute-force matcher.
\<close>

theorem priority_never_read:
  assumes "map (priority_update (\<lambda>_. [])) packages = map (priority_update (\<lambda>_. [])) packages'"
  shows "find_matches_optimized drivers packages max_distance =
           find_matches_optimized drivers packages' max_distance
     \<and> find_matches_brute_force drivers packages max_distance =
           find_matches_brute_force drivers packages' max_distance"
proof
  have "find_matches_optimized drivers packages max_distance =
      find_matches_optimized drivers (map (priority_update (\<lambda>_. [])) packages) max_distance"
    by (simp only: optimized_priority)
  also have "\<dots> = find_matches_optimized drivers packages' max_distance"
    by (simp only: assms optimized_priority)
  finally show "find_matches_optimized drivers packages max_distance =
      find_matches_optimized drivers packages' max_distance" .
  have "find_matches_brute_force drivers packages max_distance =
      find_matches_brute_force drivers (map (priority_update (\<lambda>_. [])) packages) max_distance"
    by (simp only: brute_force_priority)
  also have "\<dots> = find_matches_brute_force drivers packages' max_distance"
    by (simp only: assms brute_force_priority)
  finally show "find_matches_brute_force drivers packages max_distance =
      find_matches_brute_force drivers packages' max_distance" .
qed

theorem priority_never_read_witness:
  "map (priority_update (\<lambda>_. [])) [\<lparr>p_id = 1, p_x = 30, p_y = 0, priority = ''high''\<rparr>]
     = map (priority_update (\<lambda>_. [])) [\<lparr>p_id = 1, p_x = 30, p_y = 0, priority = ''low''\<rparr>]
   \<and> find_matches_optimized [\<lparr>d_id = 1, d_x = 0, d_y = 0\<rparr>]
        [\<lparr>p_id = 1, p_x = 30, p_y = 0, priority = ''high''\<rparr>] 50
     = find_matches_optimized [\<lparr>d_id = 1, d_x = 0, d_y = 0\<rparr>]
        [\<lparr>p_id = 1, p_x = 30, p_y = 0, priority = ''low''\<rparr>] 50
   \<and> find_matches_brute_force [\<lparr>d_id = 1, d_x = 0, d_y = 0\<rparr>]
        [\<lparr>p_id = 1, p_x = 30, p_y = 0, priority = ''high''\<rparr>] 50
     = find_matches_brute_force [\<lparr>d_id = 1, d_x = 0, d_y = 0\<rparr>]
        [\<lparr>p_id = 1, p_x = 30, p_y = 0, priority = ''low''\<rparr>] 50"
proof -
  have h: "map (priority_update (\<lambda>_. [])) [\<lparr>p_id = 1, p_x = 30, p_y = 0, priority = ''high''\<rparr>]
     = map (priority_update (\<lambda>_. [])) [\<lparr>p_id = 1, p_x = 30, p_y = 0, priority = ''low''\<rparr>]"
    by simp
  show ?thesis
    using h priority_never_read [OF h, of "[\<lparr>d_id = 1, d_x = 0, d_y = 0\<rparr>]" 50]
    by simp
qed

subsection \<open>C9: the bounding-box pre-check\<close>

text \<open>
  C9. For a positive \<^verbatim>\<open>max_distance\<close>, a squared distance below \<^verbatim>\<open>max_distance\<close>
  squared forces \<open>|driver.x - pkg.x| \<le> max_distance\<close> and
  \<open>|driver.y - pkg.y| \<le> max_distance\<close>; so the matcher with the pre-check deleted
  returns what \<^verbatim>\<open>find_matches_optimized\<close> returns, the same list or the same error.
\<close>

theorem prefilter_conservative:
  assumes "0 < max_distance"
  shows "(real_of_int (dist_sq driver pkg) < max_distance\<^sup>2 \<longrightarrow>
            \<bar>real_of_int (d_x driver - p_x pkg)\<bar> \<le> max_distance
            \<and> \<bar>real_of_int (d_y driver - p_y pkg)\<bar> \<le> max_distance)
     \<and> find_matches_optimized_nobox drivers packages max_distance =
         find_matches_optimized drivers packages max_distance"
proof
  show "real_of_int (dist_sq driver pkg) < max_distance\<^sup>2 \<longrightarrow>
            \<bar>real_of_int (d_x driver - p_x pkg)\<bar> \<le> max_distance
            \<and> \<bar>real_of_int (d_y driver - p_y pkg)\<bar> \<le> max_distance"
    using accepts_nobox_iff [OF assms, of driver pkg]
    by (simp only: accepts_nobox_def accepts_def) blast
  show "find_matches_optimized_nobox drivers packages max_distance =
         find_matches_optimized drivers packages max_distance"
    by (simp add: find_matches_optimized_nobox_def find_matches_optimized_def
        query_drivers_nobox_same [OF assms] Let_def split: sum.split)
qed

theorem prefilter_conservative_witness:
  "(0::real) < 50
   \<and> find_matches_optimized_nobox [\<lparr>d_id = 1, d_x = 0, d_y = 0\<rparr>]
        [\<lparr>p_id = 1, p_x = 30, p_y = 0, priority = ''high''\<rparr>,
         \<lparr>p_id = 2, p_x = 40, p_y = 40, priority = ''high''\<rparr>] 50
     = Inr [\<lparr>driver_id = 1, package_id = 1, distance = sqrt 900\<rparr>]
   \<and> find_matches_optimized [\<lparr>d_id = 1, d_x = 0, d_y = 0\<rparr>]
        [\<lparr>p_id = 1, p_x = 30, p_y = 0, priority = ''high''\<rparr>,
         \<lparr>p_id = 2, p_x = 40, p_y = 40, priority = ''high''\<rparr>] 50
     = Inr [\<lparr>driver_id = 1, package_id = 1, distance = sqrt 900\<rparr>]"
proof -
  have h: "(0::real) < 50" by simp
  have "find_matches_optimized [\<lparr>d_id = 1, d_x = 0, d_y = 0\<rparr>]
        [\<lparr>p_id = 1, p_x = 30, p_y = 0, priority = ''high''\<rparr>,
         \<lparr>p_id = 2, p_x = 40, p_y = 40, priority = ''high''\<rparr>] 50
     = Inr [\<lparr>driver_id = 1, package_id = 1, distance = sqrt 900\<rparr>]"
    by (simp add: find_matches_optimized_def py_int_def get_grid_key_def range_m1_2_def)
  then show ?thesis
    using prefilter_conservative [OF h, of _ _ "[\<lparr>d_id = 1, d_x = 0, d_y = 0\<rparr>]"
        "[\<lparr>p_id = 1, p_x = 30, p_y = 0, priority = ''high''\<rparr>,
         \<lparr>p_id = 2, p_x = 40, p_y = 40, priority = ''high''\<rparr>]"]
    by simp
qed

text \<open>
  The hypothesis is needed: with a negative threshold the pre-check rejects every pair,
  and without it the squared test accepts.
\<close>

lemma prefilter_needed_negative:
  "find_matches_optimized_nobox [\<lparr>d_id = 1, d_x = 0, d_y = 0\<rparr>]
        [\<lparr>p_id = 1, p_x = 0, p_y = 0, priority = ''high''\<rparr>] (-50)
     = Inr [\<lparr>driver_id = 1, package_id = 1, distance = 0\<rparr>]"
  by (simp add: find_matches_optimized_nobox_def py_int_def get_grid_key_def range_m1_2_def)

subsection \<open>C10: Pearson correlation\<close>



text \<open>
  Some runs: a constant column gives 0, a perfectly correlated pair gives 1, and the
  premise on the lengths is needed, since the mean of an empty second list raises.
\<close>

lemma pearson_constant_column:
  "pearson_correlation [5, 5, 5] [1, 2, 3] = Inr 0"
  by (simp add: pearson_correlation_def mean_def Let_def)

lemma pearson_perfect:
  "pearson_correlation [1, 2, 3] [2, 4, 6] = Inr 1"
  by (simp add: pearson_correlation_def mean_def py_truediv_def Let_def real_sqrt_mult)

lemma pearson_unequal_lengths:
  "pearson_correlation [1, 2] [] = Inl StatisticsError"
  by (simp add: pearson_correlation_def mean_def Let_def)

end
